theory Spec2Isabelle
  imports Complex_Main
begin

section \<open>Common data model\<close>

text \<open>
  The processing modules are Python 2 classes that read and write stacks of detector
  frames through ports of a central database.  An exception of the source is a value of
  the type \<open>error\<close>; a function that can raise returns \<open>error + 'a\<close> with \<open>Inl\<close>
  for the exception.  The payload of an exception names its raise site.
\<close>

datatype error =
    ValueError string
  | NameError string
  | IndexError
  | ZeroDivisionError
  | NotImplementedError string
  | TypeError string

text \<open>
  A frame is a two-dimensional array of pixel values, a list of rows.  The source computes
  in 64-bit floating point; the model computes in the reals, so rounding, overflow and
  NaN are not represented.  All arithmetic on frames is elementwise, on frames of one
  shape (the invariant of a frame stack).
\<close>

type_synonym image = "real list list"

definition img_sub :: "image \<Rightarrow> image \<Rightarrow> image" where
  "img_sub a b = map2 (map2 (-)) a b"

definition img_add :: "image \<Rightarrow> image \<Rightarrow> image" where
  "img_add a b = map2 (map2 (+)) a b"

definition img_mul :: "image \<Rightarrow> image \<Rightarrow> image" where
  "img_mul a b = map2 (map2 (*)) a b"

definition img_scale :: "real \<Rightarrow> image \<Rightarrow> image" where
  "img_scale c a = map (map (\<lambda>x. c * x)) a"

definition img_div :: "image \<Rightarrow> real \<Rightarrow> image" where
  "img_div a c = map (map (\<lambda>x. x / c)) a"

text \<open>
  \<^verbatim>\<open>np.mean(stack, axis=0)\<close>: the pixelwise mean of the frames of a stack.  For an
  empty stack numpy returns a frame of NaN with a warning; the model returns the empty
  frame there.
\<close>

definition stack_mean :: "image list \<Rightarrow> image" where
  "stack_mean fs =
     (case fs of [] \<Rightarrow> [] | f # rest \<Rightarrow> img_div (foldl img_add f rest) (real (length fs)))"

text \<open>
  \<^verbatim>\<open>xs[a:b]\<close> for \<open>0 \<le> a\<close>: the entries at the positions \<open>a \<le> k < b\<close> that exist.
\<close>

definition slice :: "'a list \<Rightarrow> nat \<Rightarrow> nat \<Rightarrow> 'a list" where
  "slice xs a b = take (b - a) (drop a xs)"

text \<open>
  A \<^verbatim>\<open>for\<close> loop whose body can raise: the loop stops at the first exception, which
  is the result.
\<close>

fun for_each :: "('i \<Rightarrow> 's \<Rightarrow> error + 's) \<Rightarrow> 'i list \<Rightarrow> 's \<Rightarrow> error + 's" where
  "for_each body [] st = Inr st"
| "for_each body (i # rest) st =
     (case body i st of Inl e \<Rightarrow> Inl e | Inr st' \<Rightarrow> for_each body rest st')"

text \<open>
  Modelled from the spec: the database and its ports (\<^verbatim>\<open>PynPoint.core\<close>) are not among
  the sources.  The specification describes them as a key-value array store: a tag names
  an ordered stack of frames, a port reads and writes the stack of its tag directly, so
  that an input and an output port with the same tag see the same stack.  \<open>set_all\<close>
  replaces the stack of a tag, \<open>append_frames\<close> extends it (and creates it when the tag
  is new), \<open>write_frame\<close> is the item assignment \<^verbatim>\<open>port[i] = frame\<close> on an existing
  stack.
\<close>

type_synonym store = "string \<Rightarrow> image list option"

definition set_all :: "store \<Rightarrow> string \<Rightarrow> image list \<Rightarrow> store" where
  "set_all st tag data = st(tag \<mapsto> data)"

definition append_frames :: "store \<Rightarrow> string \<Rightarrow> image list \<Rightarrow> store" where
  "append_frames st tag data =
     st(tag \<mapsto> (case st tag of None \<Rightarrow> data | Some old \<Rightarrow> old @ data))"

definition write_frame :: "store \<Rightarrow> string \<Rightarrow> nat \<Rightarrow> image \<Rightarrow> store" where
  "write_frame st tag i f =
     (case st tag of None \<Rightarrow> st | Some old \<Rightarrow> st(tag \<mapsto> old[i := f]))"

section \<open>PCABackgroundPreparationModule: flagging star and background cubes\<close>

text \<open>
  numpy's \<^verbatim>\<open>a[i:j] = v\<close> for a one-dimensional array and \<open>0 \<le> i\<close>: the entries at
  the positions \<open>i \<le> k < j\<close> that exist are overwritten, the slice is clipped at the end of
  the array.
\<close>

definition set_slice :: "'a list \<Rightarrow> nat \<Rightarrow> nat \<Rightarrow> 'a \<Rightarrow> 'a list" where
  "set_slice xs i j v = map (\<lambda>k. if i \<le> k \<and> k < j then v else xs ! k) [0..<length xs]"

text \<open>
  \<^verbatim>\<open>for i in range(first_star_cube, np.size(nframes), cubes_per_position*dither_positions):
      bg_frames[i:i+cubes_per_position] = False\<close>
  The loop variable runs from \<open>i\<close> in steps of \<open>step\<close> while it is below \<open>n\<close>.
\<close>

function flag_loop :: "nat \<Rightarrow> nat \<Rightarrow> nat \<Rightarrow> nat \<Rightarrow> bool list \<Rightarrow> bool list" where
  "flag_loop i n step c bg =
     (if i < n \<and> 0 < step
      then flag_loop (i + step) n step c (set_slice bg i (i + c) False)
      else bg)"
  by pat_completeness auto
termination
  by (relation "measure (\<lambda>(i, n, step, c, bg). n - i)") auto

declare flag_loop.simps [simp del]

text \<open>
  \<^verbatim>\<open>bg_frames = np.ones(nframes.shape[0], dtype=bool)\<close> followed by the loop above.
  Python's \<^verbatim>\<open>range\<close> raises a ValueError for a step of zero.  The arguments are the
  dither tuple \<open>(dither_positions, cubes_per_position, first_star_cube)\<close> and the number
  of cubes.
\<close>

definition flag_cubes :: "nat \<Rightarrow> nat \<Rightarrow> nat \<Rightarrow> nat \<Rightarrow> error + bool list" where
  "flag_cubes D C F n =
     (if C * D = 0 then Inl (ValueError ''range() step argument must not be zero'')
      else Inr (flag_loop F n (C * D) C (replicate n True)))"

section \<open>PCABackgroundPreparationModule.run\<close>



text \<open>\<^verbatim>\<open>bg_indices = np.nonzero(bg_frames)[0]\<close>\<close>

definition bg_indices :: "bool list \<Rightarrow> nat list" where
  "bg_indices bg = filter (\<lambda>k. bg ! k) [0..<length bg]"








text \<open>
  Notions for stating what \<^verbatim>\<open>run\<close> writes.  Cube \<open>i\<close> of the input starts at the
  frame index \<open>cube_offset nframes i\<close>, the sum of the frame counts of the cubes before it,
  and holds \<open>nframes ! i\<close> frames.  The star cubes are the cubes that are not flagged as
  background.  The nearest previous (next) background cube of cube \<open>i\<close> is the first
  background cube found when walking down (up) from \<open>i\<close>.
\<close>

definition cube_offset :: "nat list \<Rightarrow> nat \<Rightarrow> nat" where
  "cube_offset nframes i = sum_list (take i nframes)"

definition cube :: "nat list \<Rightarrow> 'a list \<Rightarrow> nat \<Rightarrow> 'a list" where
  "cube nframes frames i =
     slice frames (cube_offset nframes i) (cube_offset nframes i + nframes ! i)"


definition nearest_prev :: "bool list \<Rightarrow> nat \<Rightarrow> nat option" where
  "nearest_prev bg i = find (\<lambda>k. bg ! k) (rev [0..<i])"








section \<open>NoddingBackgroundModule and SkySubtraction\<close>

text \<open>
  The two classes share their time stamps and \<^verbatim>\<open>calc_sky_frame\<close>; they differ in
  the constructor.  A \<^verbatim>\<open>TimeStamp\<close> object has the fields \<^verbatim>\<open>m_time\<close>,
  \<^verbatim>\<open>m_sky_or_science\<close> (the string "SKY" or "SCIENCE") and \<^verbatim>\<open>m_index\<close>, which is
  the index of one frame of the sky port for a SKY entry and a slice of the science port
  for a SCIENCE entry: a tagged union, with the tag as the constructor.
\<close>

datatype time_stamp =
    is_SKY: SKY (m_time: int) (sky_index: nat)
  | SCIENCE (m_time: int) (slice_start: nat) (slice_stop: nat)

text \<open>
  The mode of a module is one of three strings.  The constructors compare the argument
  with the list \<^verbatim>\<open>["next", "previous", "both"]\<close>; \<open>mode_of_string\<close> is that test, and
  the field \<open>m_mode\<close> holds the accepted value.
\<close>

datatype mode = Next | Previous | Both

definition mode_of_string :: "string \<Rightarrow> mode option" where
  "mode_of_string s =
     (if s = ''next'' then Some Next
      else if s = ''previous'' then Some Previous
      else if s = ''both'' then Some Both
      else None)"

record sky_module =
  m_time_stamps :: "time_stamp list"
  m_mode :: mode

text \<open>
  \<^verbatim>\<open>NoddingBackgroundModule.__init__\<close>:
  \<^verbatim>\<open>if mode in ["next", "previous", "both"]: self.m_mode = mode
  else: raise ValueError("Mode needs to be next, previous or both.")\<close>
\<close>

definition NoddingBackgroundModule_init :: "string \<Rightarrow> error + sky_module" where
  "NoddingBackgroundModule_init mode_arg =
     (case mode_of_string mode_arg of
        Some md \<Rightarrow> Inr \<lparr>m_time_stamps = [], m_mode = md\<rparr>
      | None \<Rightarrow> Inl (ValueError ''Mode needs to be next, previous or both.''))"

text \<open>
  \<^verbatim>\<open>SkySubtraction.__init__\<close>:
  \<^verbatim>\<open>if mode in ["next", "previous", "both"]: self.m_mode = mode
  else: self.m_mode = "next"\<close>
\<close>

definition SkySubtraction_init :: "string \<Rightarrow> error + sky_module" where
  "SkySubtraction_init mode_arg =
     (case mode_of_string mode_arg of
        Some md \<Rightarrow> Inr \<lparr>m_time_stamps = [], m_mode = md\<rparr>
      | None \<Rightarrow> Inr \<lparr>m_time_stamps = [], m_mode = Next\<rparr>)"














section \<open>SimpleBackgroundSubtractionModule.run\<close>

text \<open>
  One iteration of
  \<^verbatim>\<open>for i in range(1, number_of_frames):
      tmp_res = self.m_image_in_port[i] - \
                self.m_image_in_port[(i + self.m_star_prs_shift) % number_of_frames]
      if self.m_image_in_port.tag == self.m_image_out_port.tag:
          self.m_image_out_port[i] = tmp_res
      else:
          self.m_image_out_port.append(tmp_res)\<close>
  Both operands are read from the database in every iteration.  Python's \<^verbatim>\<open>%\<close> with a
  positive right operand is HOL's \<open>mod\<close> on \<open>int\<close>.
\<close>

definition simple_step :: "int \<Rightarrow> string \<Rightarrow> string \<Rightarrow> nat \<Rightarrow> nat \<Rightarrow> store \<Rightarrow> error + store" where
  "simple_step shift in_tag out_tag number_of_frames i st =
     (case st in_tag of
        None \<Rightarrow> Inl (TypeError ''no data for the input tag'')
      | Some cur \<Rightarrow>
          (let j = nat ((int i + shift) mod int number_of_frames)
           in if i < length cur \<and> j < length cur then
                (let tmp_res = img_sub (cur ! i) (cur ! j)
                 in Inr (if in_tag = out_tag then write_frame st out_tag i tmp_res
                         else append_frames st out_tag [tmp_res]))
              else Inl IndexError))"

text \<open>
  \<^verbatim>\<open>run\<close>: the first subtraction sets up the output (\<^verbatim>\<open>set_all\<close>, or the item
  assignment when the output tag is the input tag), the loop does the rest.  The result
  is the database after the run.
\<close>

definition SimpleBackgroundSubtraction_run :: "int \<Rightarrow> string \<Rightarrow> string \<Rightarrow> store \<Rightarrow> error + store" where
  "SimpleBackgroundSubtraction_run shift in_tag out_tag st =
     (case st in_tag of
        None \<Rightarrow> Inl (TypeError ''no data for the input tag'')
      | Some frames \<Rightarrow>
          (let number_of_frames = length frames
           in if number_of_frames = 0 then Inl IndexError
              else
                (let tmp_res = img_sub (frames ! 0)
                                 (frames ! nat ((0 + shift) mod int number_of_frames));
                     st1 = (if in_tag = out_tag then write_frame st out_tag 0 tmp_res
                            else set_all st out_tag [tmp_res])
                 in for_each (simple_step shift in_tag out_tag number_of_frames)
                      [1..<number_of_frames] st1)))"

text \<open>
  The frame that the claim names for index \<open>i\<close>: input frame \<open>i\<close> minus input frame
  \<open>(i + shift) mod N\<close>.
\<close>

definition simple_expected :: "int \<Rightarrow> image list \<Rightarrow> nat \<Rightarrow> image" where
  "simple_expected shift frames i =
     img_sub (frames ! i) (frames ! nat ((int i + shift) mod int (length frames)))"

section \<open>MeanBackgroundSubtractionModule.run with a scalar star_pos_shift\<close>

text \<open>
  \<^verbatim>\<open>xs[a:b]\<close> with integer bounds as numpy slices an array: a negative bound counts
  from the end, and both bounds are clipped to the array.
\<close>

definition py_slice :: "'a list \<Rightarrow> int \<Rightarrow> int \<Rightarrow> 'a list" where
  "py_slice xs a b =
     (let n = int (length xs);
          lo = (if a < 0 then max 0 (a + n) else min a n);
          hi = (if b < 0 then max 0 (b + n) else min b n)
      in take (nat (hi - lo)) (drop (nat lo) xs))"

text \<open>
  The body of the loop over the inner stack parts,
  \<^verbatim>\<open>for i in range(1, top, 1)\<close>: the frames of part \<open>i\<close> minus the average of the mean
  of the next and the mean of the previous part.
\<close>

definition mean_inner_part :: "image list \<Rightarrow> int \<Rightarrow> int \<Rightarrow> image list" where
  "mean_inner_part frames S i =
     (let mean_next = stack_mean (py_slice frames ((i + 1) * S) ((i + 2) * S));
          mean_prev = stack_mean (py_slice frames ((i - 1) * S) (i * S));
          tmp_mean = img_div (img_add mean_next mean_prev) 2
      in map (\<lambda>f. img_sub f tmp_mean) (py_slice frames (i * S) ((i + 1) * S)))"

text \<open>
  \<^verbatim>\<open>run\<close> for a module that was given a number \<open>S\<close> as \<^verbatim>\<open>star_pos_shift\<close> (the
  branches for an \<^verbatim>\<open>np.ndarray\<close> are not taken).  The source is Python 2:
  \<^verbatim>\<open>number_of_frames/self.m_star_prs_shift\<close> is the integer quotient and raises
  ZeroDivisionError for \<open>S = 0\<close>.  The result is the exception, if one was raised, and the
  database at that moment: nothing that was written is rolled back.
\<close>

definition MeanBackgroundSubtraction_run ::
  "nat \<Rightarrow> string \<Rightarrow> string \<Rightarrow> store \<Rightarrow> error option \<times> store" where
  "MeanBackgroundSubtraction_run star_pos_shift in_tag out_tag st =
     (case st in_tag of
        None \<Rightarrow> (Some (TypeError ''no data for the input tag''), st)
      | Some frames \<Rightarrow>
          (let number_of_frames = length frames; S = int star_pos_shift
           in if number_of_frames < star_pos_shift * 2 then
                (Some (ValueError ''The input stack is to small for mean background subtraction.''),
                 st)
              else if star_pos_shift = 0 then (Some ZeroDivisionError, st)
              else
                (let tmp_mean = stack_mean (py_slice frames S (2 * S));
                     tmp_res = img_sub (frames ! 0) tmp_mean
                 in if in_tag = out_tag then
                      (Some (NotImplementedError
                               ''Same input and output port not implemented yet.''), st)
                    else
                      (let st1 = set_all st out_tag [tmp_res];
                           st2 = append_frames st1 out_tag
                                   (map (\<lambda>f. img_sub f tmp_mean) (py_slice frames 1 S));
                           top = int (number_of_frames div star_pos_shift) - 2;
                           st3 = foldl (\<lambda>s i. append_frames s out_tag
                                                  (mean_inner_part frames S (int i)))
                                   st2 [1..<nat top];
                           mean_prev = stack_mean (py_slice frames ((top - 1) * S) (top * S));
                           mean_next = stack_mean
                                         (py_slice frames ((top + 1) * S) (int number_of_frames));
                           tmp_mean1 = img_div (img_add mean_prev mean_next) 2;
                           st4 = append_frames st3 out_tag
                                   (map (\<lambda>f. img_sub f tmp_mean1)
                                      (py_slice frames (top * S) ((top + 1) * S)));
                           tmp_mean2 = stack_mean (py_slice frames (top * S) ((top + 1) * S));
                           st5 = append_frames st4 out_tag
                                   (map (\<lambda>f. img_sub f tmp_mean2)
                                      (py_slice frames ((top + 1) * S) (int number_of_frames)))
                       in (None, st5)))))"

section \<open>PCABackgroundSubtractionModule\<close>

text \<open>
  \<^verbatim>\<open>_create_mask\<close> returns one frame in mode "mean" and one frame per image in mode
  "exact".
\<close>

datatype mask = Mask2 image | Mask3 "image list"

text \<open>Python's \<^verbatim>\<open>int(x)\<close> of a float: rounding towards zero.\<close>

definition py_int :: "real \<Rightarrow> int" where
  "py_int x = (if 0 \<le> x then \<lfloor>x\<rfloor> else \<lceil>x\<rceil>)"

text \<open>
  \<^verbatim>\<open>x_grid = np.arange(0, im_dim[0], 1); y_grid = np.arange(0, im_dim[1], 1)
  xx_grid, yy_grid = np.meshgrid(x_grid, y_grid)
  rr_grid = np.sqrt((xx_grid - cent_x)**2 + (yy_grid - cent_y)**2)\<close>
  \<^verbatim>\<open>meshgrid\<close> gives arrays with \<open>im_dim[1]\<close> rows and \<open>im_dim[0]\<close> columns, with
  \<^verbatim>\<open>xx_grid[r][c] = c\<close> and \<^verbatim>\<open>yy_grid[r][c] = r\<close>.
\<close>

definition rr_grid :: "nat \<times> nat \<Rightarrow> real \<Rightarrow> real \<Rightarrow> image" where
  "rr_grid im_dim cent_x cent_y =
     map (\<lambda>r. map (\<lambda>c. sqrt ((real c - cent_x)\<^sup>2 + (real r - cent_y)\<^sup>2)) [0..<fst im_dim])
       [0..<snd im_dim]"

text \<open>
  \<^verbatim>\<open>mask = np.ones(im_dim); mask[rr_grid < mask_radius] = 0.\<close>
  The boolean index has the shape of \<^verbatim>\<open>rr_grid\<close>, the transpose of the shape of the
  mask, and numpy raises an IndexError unless the two agree.
\<close>

definition disk_mask :: "nat \<times> nat \<Rightarrow> real \<Rightarrow> real \<Rightarrow> real \<Rightarrow> error + image" where
  "disk_mask im_dim mask_radius cent_x cent_y =
     (if fst im_dim \<noteq> snd im_dim then Inl IndexError
      else Inr (map (map (\<lambda>rr. if rr < mask_radius then 0 else 1))
                  (rr_grid im_dim cent_x cent_y)))"

text \<open>
  \<^verbatim>\<open>_create_mask(self, mask_radius, star_position, num_frames)\<close>.  \<open>star_position\<close> has
  one row \<open>(x, y)\<close> per frame.  In mode "mean" the centre is
  \<^verbatim>\<open>int(np.mean(star_position[0]))\<close>, \<^verbatim>\<open>int(np.mean(star_position[1]))\<close>: the means of
  the first and of the second row.  In mode "exact" the centre of frame \<open>i\<close> is
  \<^verbatim>\<open>star_position[i, 0]\<close>, \<^verbatim>\<open>star_position[i, 1]\<close>.  For any other mode the variable
  \<^verbatim>\<open>mask\<close> is unbound at the \<^verbatim>\<open>return\<close>.
\<close>

fun exact_masks :: "nat \<times> nat \<Rightarrow> real \<Rightarrow> (real \<times> real) list \<Rightarrow> nat list \<Rightarrow> error + image list" where
  "exact_masks im_dim mask_radius star_position [] = Inr []"
| "exact_masks im_dim mask_radius star_position (i # rest) =
     (if i < length star_position then
        (case disk_mask im_dim mask_radius (fst (star_position ! i)) (snd (star_position ! i)) of
           Inl e \<Rightarrow> Inl e
         | Inr m \<Rightarrow>
             (case exact_masks im_dim mask_radius star_position rest of
                Inl e \<Rightarrow> Inl e
              | Inr ms \<Rightarrow> Inr (m # ms)))
      else Inl IndexError)"

definition create_mask ::
  "string \<Rightarrow> nat \<times> nat \<Rightarrow> real \<Rightarrow> (real \<times> real) list \<Rightarrow> nat \<Rightarrow> error + mask" where
  "create_mask mask_position im_dim mask_radius star_position num_frames =
     (if mask_position = ''mean'' then
        (if length star_position < 2 then Inl IndexError
         else
           (let cent_x = py_int ((fst (star_position ! 0) + snd (star_position ! 0)) / 2);
                cent_y = py_int ((fst (star_position ! 1) + snd (star_position ! 1)) / 2)
            in map_sum id Mask2 (disk_mask im_dim mask_radius (real_of_int cent_x) (real_of_int cent_y))))
      else if mask_position = ''exact'' then
        map_sum id Mask3 (exact_masks im_dim mask_radius star_position [0..<num_frames])
      else Inl (NameError ''mask''))"

text \<open>\<^verbatim>\<open>np.dot(fitted[0], basis_reshaped)\<close>: the linear combination of the basis images.\<close>

definition linear_combination :: "real list \<Rightarrow> image list \<Rightarrow> image" where
  "linear_combination coeff basis =
     (case map2 img_scale coeff basis of [] \<Rightarrow> [] | t # ts \<Rightarrow> foldl img_add t ts)"

text \<open>
  \<^verbatim>\<open>_model_background(self, basis, im_arr, mask)\<close>.  \<open>curve_fit\<close> stands for scipy's
  least-squares fit of the frame by the masked basis images, from the initial guess of
  all ones; it returns the coefficients.  The model of a frame is the linear combination
  of the basis images that are not masked.
\<close>

fun model_frames ::
  "(image list \<Rightarrow> image \<Rightarrow> real list) \<Rightarrow> image list \<Rightarrow> image list \<Rightarrow> mask \<Rightarrow> nat list
     \<Rightarrow> error + image list" where
  "model_frames curve_fit basis im_arr msk [] = Inr []"
| "model_frames curve_fit basis im_arr msk (i # rest) =
     (case (case msk of
              Mask2 m \<Rightarrow> Inr (map (\<lambda>b. img_mul b m) basis)
            | Mask3 ms \<Rightarrow> (if i < length ms then Inr (map (\<lambda>b. img_mul b (ms ! i)) basis)
                            else Inl IndexError)) of
        Inl e \<Rightarrow> Inl e
      | Inr basis_masked \<Rightarrow>
          (let fit_im = linear_combination (curve_fit basis_masked (im_arr ! i)) basis
           in case model_frames curve_fit basis im_arr msk rest of
                Inl e \<Rightarrow> Inl e
              | Inr fits \<Rightarrow> Inr (fit_im # fits)))"

definition model_background ::
  "(image list \<Rightarrow> image \<Rightarrow> real list) \<Rightarrow> image list \<Rightarrow> image list \<Rightarrow> mask
     \<Rightarrow> error + image list" where
  "model_background curve_fit basis im_arr msk =
     model_frames curve_fit basis im_arr msk [0..<length im_arr]"

text \<open>\<^verbatim>\<open>im_star*mask\<close>: every frame times the one mask, or frame \<open>i\<close> times mask \<open>i\<close>.\<close>

definition apply_mask :: "image list \<Rightarrow> mask \<Rightarrow> image list" where
  "apply_mask im_star msk =
     (case msk of
        Mask2 m \<Rightarrow> map (\<lambda>f. img_mul f m) im_star
      | Mask3 ms \<Rightarrow> map2 img_mul im_star ms)"

text \<open>
  The configuration of a run: the MEMORY attribute of the configuration port, the
  PIXSCALE and STAR_POSITION attributes of the star input, the constructor arguments
  \<^verbatim>\<open>mask_radius\<close> (arcsec) and \<^verbatim>\<open>mask_position\<close> as the module stores them, and
  the frames of the two input tags.
\<close>

record pca_config =
  pca_MEMORY :: nat
  pca_PIXSCALE :: real
  pca_STAR_POSITION :: "(real \<times> real) list"
  m_mask_radius :: real
  m_mask_position :: string
  star_in :: "image list"
  background_in :: "image list"

text \<open>
  The work on one chunk of frames with the mask \<open>msk\<close> (the variable \<^verbatim>\<open>mask\<close> of the
  source): the frames minus their background model.
\<close>

definition pca_chunk ::
  "(image list \<Rightarrow> image \<Rightarrow> real list) \<Rightarrow> image list \<Rightarrow> image list \<Rightarrow> mask
     \<Rightarrow> error + image list" where
  "pca_chunk curve_fit basis_pca im_star msk =
     (case model_background curve_fit basis_pca (apply_mask im_star msk) msk of
        Inl e \<Rightarrow> Inl e
      | Inr fit_im \<Rightarrow> Inr (map2 img_sub im_star fit_im))"

text \<open>
  One iteration of the loop over the full chunks.  The state is the variable
  \<^verbatim>\<open>mask\<close> (\<open>None\<close>: unbound) and the frames written to the output so far.
\<close>

definition pca_loop_step ::
  "(image list \<Rightarrow> image \<Rightarrow> real list) \<Rightarrow> pca_config \<Rightarrow> nat \<times> nat \<Rightarrow> real \<Rightarrow> image list \<Rightarrow> nat
     \<Rightarrow> mask option \<times> image list \<Rightarrow> error + mask option \<times> image list" where
  "pca_loop_step curve_fit cfg im_dim radius basis_pca i st =
     (let frame_start = i * pca_MEMORY cfg;
          frame_end = i * pca_MEMORY cfg + pca_MEMORY cfg;
          im_star = slice (star_in cfg) frame_start frame_end
      in case (if m_mask_position cfg = ''exact''
               then map_sum id Some
                      (create_mask (m_mask_position cfg) im_dim radius
                         (slice (pca_STAR_POSITION cfg) frame_start frame_end)
                         (frame_end - frame_start))
               else Inr (fst st)) of
           Inl e \<Rightarrow> Inl e
         | Inr None \<Rightarrow> Inl (NameError ''mask'')
         | Inr (Some msk) \<Rightarrow>
             (case pca_chunk curve_fit basis_pca im_star msk of
                Inl e \<Rightarrow> Inl e
              | Inr sub \<Rightarrow>
                  Inr (Some msk, if i = 0 then sub else snd st @ sub)))"

text \<open>
  \<^verbatim>\<open>run\<close>.  \<open>create_basis\<close> stands for \<^verbatim>\<open>_create_basis\<close>, the truncated singular value
  decomposition of scipy.  \<open>out0\<close> is what the database holds under the output tag before
  the run.  The result is the stack under the output tag after the run.  After the loop
  over the full chunks, the remaining frames are one more chunk, and for it the mask is
  created again in either mode, from the star positions of that chunk.
\<close>

definition PCABackgroundSubtraction_run ::
  "(image list \<Rightarrow> image list) \<Rightarrow> (image list \<Rightarrow> image \<Rightarrow> real list) \<Rightarrow> pca_config \<Rightarrow> image list
     \<Rightarrow> error + image list" where
  "PCABackgroundSubtraction_run create_basis curve_fit cfg out0 =
     (let radius = m_mask_radius cfg / pca_PIXSCALE cfg;
          basis_pca = create_basis (background_in cfg);
          num_frames = length (star_in cfg)
      in if pca_MEMORY cfg = 0 then Inl ZeroDivisionError
         else
           (let num_stacks = num_frames div pca_MEMORY cfg
            in case star_in cfg of
                 [] \<Rightarrow> Inl IndexError
               | f0 # _ \<Rightarrow>
                   (let im_dim = (length f0, length (hd f0))
                    in case (if m_mask_position cfg = ''mean''
                             then map_sum id Some
                                    (create_mask (m_mask_position cfg) im_dim radius
                                       (pca_STAR_POSITION cfg) num_frames)
                             else Inr None) of
                         Inl e \<Rightarrow> Inl e
                       | Inr mask0 \<Rightarrow>
                           (case for_each (pca_loop_step curve_fit cfg im_dim radius basis_pca)
                                   [0..<num_stacks] (mask0, out0) of
                              Inl e \<Rightarrow> Inl e
                            | Inr (mask1, out1) \<Rightarrow>
                                if num_frames mod pca_MEMORY cfg > 0 then
                                  (let frame_start = num_stacks * pca_MEMORY cfg;
                                       frame_end = num_frames;
                                       im_star = slice (star_in cfg) frame_start frame_end
                                   in case create_mask (m_mask_position cfg) im_dim radius
                                             (slice (pca_STAR_POSITION cfg) frame_start frame_end)
                                             (frame_end - frame_start) of
                                        Inl e \<Rightarrow> Inl e
                                      | Inr msk \<Rightarrow>
                                          (case pca_chunk curve_fit basis_pca im_star msk of
                                             Inl e \<Rightarrow> Inl e
                                           | Inr sub \<Rightarrow> Inr (out1 @ sub)))
                                else Inr out1))))"

section \<open>FakePlanetModule.run\<close>

text \<open>
  A database entry that is read by \<^verbatim>\<open>FakePlanetModule\<close> is a single image or a stack
  of images; \<^verbatim>\<open>get_shape\<close> gives its dimensions.
\<close>

datatype dataset = Image2D image | Stack3D "image list"

type_synonym dstore = "string \<Rightarrow> dataset option"

definition image_shape :: "image \<Rightarrow> nat list" where
  "image_shape img = [length img, (case img of [] \<Rightarrow> 0 | row # _ \<Rightarrow> length row)]"

definition get_shape :: "dataset \<Rightarrow> nat list" where
  "get_shape d =
     (case d of
        Image2D img \<Rightarrow> image_shape img
      | Stack3D fs \<Rightarrow> length fs # (case fs of [] \<Rightarrow> [0, 0] | f # _ \<Rightarrow> image_shape f))"

text \<open>
  \<^verbatim>\<open>im_stacks\<close>: the chunk boundaries \<open>0, memory, 2 * memory, \<dots>\<close> and the number of
  images at the end when it is not a multiple of \<open>memory\<close>.
\<close>

definition im_stacks :: "nat \<Rightarrow> nat \<Rightarrow> nat list" where
  "im_stacks n_image memory =
     (let n_stack_im = n_image div memory
      in map (\<lambda>k. k * memory) [0..<Suc n_stack_im] @
         (if n_stack_im * memory \<noteq> n_image then [n_image] else []))"

text \<open>
  The attributes that \<^verbatim>\<open>run\<close> reads, MEMORY of the configuration port, PIXSCALE
  and NEW_PARA (degrees) of the image input, and the constructor arguments as the module
  stores them.
\<close>

record fake_planet_config =
  fp_MEMORY :: nat
  fp_PIXSCALE :: real
  fp_NEW_PARA :: "real list"
  m_position :: "real \<times> real"
  m_magnitude :: real
  m_psf_scaling :: real

text \<open>
  The mean of the PSF stack as \<^verbatim>\<open>run\<close> accumulates it, chunk by chunk, when the
  number of PSF frames differs from the number of images:
  \<^verbatim>\<open>psf = np.zeros(...)
  for i in range(n_stack_psf): psf += np.sum(self.m_psf_in_port[i*memory:(i+1)*memory], axis=0)
  if n_stack_psf*memory != n_psf: psf += np.sum(self.m_psf_in_port[n_stack_psf*memory:n_psf], axis=0)
  psf /= float(n_psf)\<close>
\<close>

definition stack_sum :: "image \<Rightarrow> image list \<Rightarrow> image" where
  "stack_sum zero fs = foldl img_add zero fs"

definition psf_mean :: "nat \<Rightarrow> nat \<Rightarrow> nat \<times> nat \<Rightarrow> image list \<Rightarrow> image" where
  "psf_mean mem n_psf im_size psf_frames =
     (let zeros = replicate (fst im_size) (replicate (snd im_size) 0);
          n_stack_psf = n_psf div mem;
          acc = foldl (\<lambda>psf i. img_add psf (stack_sum zeros (slice psf_frames (i * mem) ((i + 1) * mem))))
                  zeros [0..<n_stack_psf];
          acc' = (if n_stack_psf * mem \<noteq> n_psf
                  then img_add acc (stack_sum zeros (slice psf_frames (n_stack_psf * mem) n_psf))
                  else acc)
      in img_div acc' (real n_psf))"

text \<open>
  The inner loop over the frames of a chunk,
  \<^verbatim>\<open>for i in range(image.shape[0]):
      x_shift = radial*math.cos(theta-parang[j*memory+i])
      y_shift = radial*math.sin(theta-parang[j*memory+i])
      psf_tmp = <the mean PSF, or self.m_psf_in_port[j*memory+i]>
      psf_tmp = shift(psf_tmp, (y_shift, x_shift), order=5, mode='reflect')
      image[i,] += self.m_psf_scaling*flux_ratio*psf_tmp\<close>
  \<open>shift_img\<close> stands for scipy's \<^verbatim>\<open>shift\<close> with these options.  \<open>psf\<close> is the
  single PSF when there is one (\<open>Some\<close>), and \<open>None\<close> when the PSF stack has one frame per
  image.
\<close>

fun inject_frames ::
  "(image \<Rightarrow> real \<times> real \<Rightarrow> image) \<Rightarrow> real \<Rightarrow> real \<Rightarrow> real list \<Rightarrow> real \<Rightarrow> image option
     \<Rightarrow> image list \<Rightarrow> nat \<Rightarrow> image list \<Rightarrow> error + image list" where
  "inject_frames shift_img radial theta parang factor psf psf_frames k [] = Inr []"
| "inject_frames shift_img radial theta parang factor psf psf_frames k (im # rest) =
     (if k < length parang then
        (let x_shift = radial * cos (theta - parang ! k);
             y_shift = radial * sin (theta - parang ! k)
         in case (case psf of
                    Some p \<Rightarrow> Inr p
                  | None \<Rightarrow> (if k < length psf_frames then Inr (psf_frames ! k)
                              else Inl IndexError)) of
              Inl e \<Rightarrow> Inl e
            | Inr psf_tmp \<Rightarrow>
                (case inject_frames shift_img radial theta parang factor psf psf_frames (Suc k) rest of
                   Inl e \<Rightarrow> Inl e
                 | Inr later \<Rightarrow>
                     Inr (img_add im (img_scale factor (shift_img psf_tmp (y_shift, x_shift)))
                          # later)))
      else Inl IndexError)"

text \<open>
  One iteration of the loop over the chunks, \<^verbatim>\<open>for j, _ in enumerate(im_stacks[:-1])\<close>.
  The chunk is read from the PSF port,
  \<^verbatim>\<open>image = self.m_psf_in_port[im_stacks[j]:im_stacks[j+1]]\<close>,
  in the current database.  When the PSF entry is a single image the slice holds rows of
  that image, and the in-place addition of a whole image to a row cannot be broadcast
  (a ValueError of numpy).  \<open>chunk\<close> is the variable \<^verbatim>\<open>image\<close> after the inner loop.
  The first chunk replaces the output, the later ones are appended.
\<close>

definition fake_planet_chunk ::
  "(image \<Rightarrow> real \<times> real \<Rightarrow> image) \<Rightarrow> fake_planet_config \<Rightarrow> string \<Rightarrow> string \<Rightarrow> nat list
     \<Rightarrow> image option \<Rightarrow> nat \<Rightarrow> dstore \<Rightarrow> error + dstore" where
  "fake_planet_chunk shift_img cfg psf_in_tag image_out_tag stacks psf j st =
     (let radial = fst (m_position cfg) / fp_PIXSCALE cfg;
          theta = snd (m_position cfg) * pi / 180 + pi / 2;
          parang = map (\<lambda>a. a * (pi / 180)) (fp_NEW_PARA cfg);
          flux_ratio = 10 powr (- m_magnitude cfg / 2.5)
      in case st psf_in_tag of
           None \<Rightarrow> Inl (TypeError ''no data for the PSF tag'')
         | Some (Image2D img) \<Rightarrow>
             (if slice img (stacks ! j) (stacks ! (j + 1)) = []
              then Inr (if j = 0 then st(image_out_tag \<mapsto> Stack3D [])
                        else st)
              else Inl (ValueError ''operands could not be broadcast together''))
         | Some (Stack3D psf_frames) \<Rightarrow>
             (case inject_frames shift_img radial theta parang (m_psf_scaling cfg * flux_ratio) psf
                     psf_frames (j * fp_MEMORY cfg)
                     (slice psf_frames (stacks ! j) (stacks ! (j + 1))) of
                Inl e \<Rightarrow> Inl e
              | Inr chunk \<Rightarrow>
                  Inr (if j = 0 then st(image_out_tag \<mapsto> Stack3D chunk)
                       else st(image_out_tag \<mapsto>
                              (case st image_out_tag of
                                 Some (Stack3D old) \<Rightarrow> Stack3D (old @ chunk)
                               | _ \<Rightarrow> Stack3D chunk)))))"

text \<open>
  \<^verbatim>\<open>run\<close>.  The result is the database after the run.  The sizes that are compared
  before the loop are both computed from the shape of the image input.
\<close>

definition FakePlanet_run ::
  "(image \<Rightarrow> real \<times> real \<Rightarrow> image) \<Rightarrow> fake_planet_config \<Rightarrow> string \<Rightarrow> string \<Rightarrow> string \<Rightarrow> dstore
     \<Rightarrow> error + dstore" where
  "FakePlanet_run shift_img cfg image_in_tag psf_in_tag image_out_tag st =
     (case (st image_in_tag, st psf_in_tag) of
        (Some image_in, Some psf_in) \<Rightarrow>
          (let im_shape = get_shape image_in; psf_shape = get_shape psf_in
           in if length im_shape \<noteq> 3 then
                Inl (ValueError ''The image_in_tag should contain a cube of images.'')
              else if fp_MEMORY cfg = 0 then Inl ZeroDivisionError
              else
                (let n_image = im_shape ! 0;
                     im_size = (im_shape ! 1, im_shape ! 2);
                     n_psf = (if length psf_shape = 2 then 1 else psf_shape ! 0);
                     psf_size = (if length psf_shape = 2 then (im_shape ! 0, im_shape ! 1)
                                 else (im_shape ! 1, im_shape ! 2))
                 in if psf_size \<noteq> im_size then
                      Inl (ValueError ''The images in image_in_tag should have the same dimensions as the image(s) in psf_in_tag.'')
                    else
                      (let stacks = im_stacks n_image (fp_MEMORY cfg);
                           psf = (case psf_in of
                                    Image2D img \<Rightarrow> Some img
                                  | Stack3D psf_frames \<Rightarrow>
                                      (if n_image \<noteq> n_psf
                                       then Some (psf_mean (fp_MEMORY cfg) n_psf im_size psf_frames)
                                       else None))
                       in for_each (fake_planet_chunk shift_img cfg psf_in_tag image_out_tag stacks psf)
                            [0..<length stacks - 1] st)))
      | _ \<Rightarrow> Inl (TypeError ''no data for an input tag''))"

text \<open>
  The output frame \<open>i\<close> that the claim names: the science frame \<open>i\<close> plus
  \<open>psf_scaling * 10^(-magnitude/2.5)\<close> times the reference PSF shifted by the offset of
  that frame.
\<close>

definition fake_expected ::
  "(image \<Rightarrow> real \<times> real \<Rightarrow> image) \<Rightarrow> fake_planet_config \<Rightarrow> image list \<Rightarrow> image \<Rightarrow> nat \<Rightarrow> image" where
  "fake_expected shift_img cfg science psf i =
     (let radial = fst (m_position cfg) / fp_PIXSCALE cfg;
          theta = snd (m_position cfg) * pi / 180 + pi / 2;
          pa = (fp_NEW_PARA cfg ! i) * (pi / 180)
      in img_add (science ! i)
           (img_scale (m_psf_scaling cfg * 10 powr (- m_magnitude cfg / 2.5))
              (shift_img psf (radial * sin (theta - pa), radial * cos (theta - pa)))))"

section \<open>SimplexMinimizationModule\<close>

text \<open>
  \<^verbatim>\<open>math.atan2(y, x)\<close> on the reals (the signed zeros of floating point are not
  represented), and Python's \<^verbatim>\<open>x % m\<close> on floats for a positive \<open>m\<close>.
\<close>

definition atan2 :: "real \<Rightarrow> real \<Rightarrow> real" where
  "atan2 y x =
     (if 0 < x then arctan (y / x)
      else if x < 0 \<and> 0 \<le> y then arctan (y / x) + pi
      else if x < 0 then arctan (y / x) - pi
      else if 0 < y then pi / 2
      else if y < 0 then - pi / 2
      else 0)"

definition py_fmod :: "real \<Rightarrow> real \<Rightarrow> real" where
  "py_fmod x m = x - m * of_int \<lfloor>x / m\<rfloor>"

text \<open>
  \<^verbatim>\<open>_rotate(center, position, angle)\<close>, the angle in degrees.
\<close>

definition rotate_about :: "real \<times> real \<Rightarrow> real \<times> real \<Rightarrow> real \<Rightarrow> real \<times> real" where
  "rotate_about center pos angle =
     (let pos_x = (fst pos - fst center) * cos (angle * pi / 180) -
                  (snd pos - snd center) * sin (angle * pi / 180);
          pos_y = (fst pos - fst center) * sin (angle * pi / 180) +
                  (snd pos - snd center) * cos (angle * pi / 180)
      in (fst center + pos_x, snd center + pos_y))"

text \<open>
  The module after construction, with the attributes that \<^verbatim>\<open>run\<close> and the injected
  \<^verbatim>\<open>FakePlanetModule\<close> read from the database (MEMORY, PIXSCALE, NEW_PARA).  The
  arguments \<^verbatim>\<open>pca_number\<close> and \<^verbatim>\<open>mask\<close> are only handed on to the PSF subtraction.
\<close>

record simplex_module =
  sm_position :: "real \<times> real"
  sm_magnitude :: real
  sm_psf_scaling :: real
  sm_merit :: string
  sm_radius :: real
  sm_sigma :: real
  sm_tolerance :: real
  sm_pca_module :: string
  sm_extra_rot :: real
  sm_image_in_tag :: string
  sm_psf_in_tag :: string
  sm_MEMORY :: nat
  sm_PIXSCALE :: real
  sm_NEW_PARA :: "real list"

text \<open>
  What \<^verbatim>\<open>run\<close> computes before the minimization and \<^verbatim>\<open>_objective\<close> reads: the
  centre, the rotated approximate position (\<^verbatim>\<open>self.m_position\<close>), the radius in
  pixels, rounded up (\<^verbatim>\<open>self.m_radius\<close>), and sigma in pixels.
\<close>

record simplex_closure =
  cl_center :: "real \<times> real"
  cl_position :: "real \<times> real"
  cl_radius :: int
  cl_sigma :: real

text \<open>
  The collaborators that are not part of the sources, as parameters: scipy's
  \<^verbatim>\<open>shift\<close>; the run of the PSF subtraction module of a given name on the database
  (it writes the tag \<^verbatim>\<open>simplex_res_mean\<close>); astropy's \<^verbatim>\<open>Cutout2D\<close> of an image at a
  position with a size; skimage's \<^verbatim>\<open>hessian_matrix\<close>, which returns three images; and
  scipy's \<^verbatim>\<open>minimize\<close>: from the start values, the tolerance and the trials so far
  (arguments and merit values), the next arguments to evaluate, or \<open>None\<close> to stop.
\<close>

type_synonym trial = "(real \<times> real \<times> real) \<times> real"

record simplex_env =
  env_shift :: "image \<Rightarrow> real \<times> real \<Rightarrow> image"
  env_psf_subtraction :: "string \<Rightarrow> dstore \<Rightarrow> error + dstore"
  env_cutout :: "image \<Rightarrow> real \<times> real \<Rightarrow> int \<Rightarrow> error + image"
  env_hessian_matrix :: "image \<Rightarrow> real \<Rightarrow> image \<times> image \<times> image"
  env_minimize :: "real \<times> real \<times> real \<Rightarrow> real \<Rightarrow> trial list \<Rightarrow> (real \<times> real \<times> real) option"

text \<open>
  The database during the minimization: the entries that the modules read and write by
  tag, and the two outputs of this module, the stack of residual images and the rows of
  the flux-position output.  The two output tags are taken to differ from the other tags.
\<close>

record simplex_state =
  db :: dstore
  res_out :: "image list"
  flux_position :: "real list list"

text \<open>
  The sum of the absolute values of an image inside the aperture:
  \<^verbatim>\<open>x_grid = y_grid = np.linspace(-(npix-1)/2, (npix-1)/2, npix)\<close> (for an even
  \<^verbatim>\<open>npix\<close> the source writes the same points as \<^verbatim>\<open>-npix/2+0.5, \<dots>\<close>),
  \<^verbatim>\<open>rr_grid = np.sqrt(xx_grid*xx_grid+yy_grid*yy_grid)\<close>,
  \<^verbatim>\<open>img[rr_grid > self.m_radius] = 0.\<close>, \<^verbatim>\<open>np.sum(np.abs(img))\<close>.
  The boolean index is square with side \<^verbatim>\<open>npix = im_crop.shape[0]\<close>; numpy raises an
  IndexError when the image has another shape.
\<close>

definition aperture_grid :: "nat \<Rightarrow> image" where
  "aperture_grid npix =
     map (\<lambda>r. map (\<lambda>c. sqrt ((real c - (real npix - 1) / 2)\<^sup>2 + (real r - (real npix - 1) / 2)\<^sup>2))
                  [0..<npix])
       [0..<npix]"

definition aperture_abs_sum :: "nat \<Rightarrow> int \<Rightarrow> image \<Rightarrow> error + real" where
  "aperture_abs_sum npix radius img =
     (if length img = npix \<and> list_all (\<lambda>row. length row = npix) img then
        Inr (sum_list (map2 (\<lambda>row rr_row.
               sum_list (map2 (\<lambda>v rr. if rr > real_of_int radius then 0 else \<bar>v\<bar>) row rr_row))
               img (aperture_grid npix)))
      else Inl IndexError)"

text \<open>
  The function of merit of the cropped residual image: for "hessian" the determinant of
  the Hessian matrix, for "sum" the image itself, summed in absolute value inside the
  aperture; any other name raises.
\<close>

definition merit_value :: "simplex_env \<Rightarrow> simplex_module \<Rightarrow> simplex_closure \<Rightarrow> image \<Rightarrow> error + real" where
  "merit_value env m cl im_crop =
     (let npix = length im_crop
      in if sm_merit m = ''hessian'' then
           (case env_hessian_matrix env im_crop (cl_sigma cl) of
              (hessian_rr, hessian_rc, hessian_cc) \<Rightarrow>
                aperture_abs_sum npix (cl_radius cl)
                  (img_sub (img_mul hessian_rr hessian_cc) (img_mul hessian_rc hessian_rc)))
         else if sm_merit m = ''sum'' then aperture_abs_sum npix (cl_radius cl) im_crop
         else Inl (ValueError ''Function of merit should be set to hessian or sum.''))"

text \<open>
  The residual image that \<^verbatim>\<open>_objective\<close> takes from the tag \<^verbatim>\<open>simplex_res_mean\<close>:
  the image itself, or the single image of a stack; a stack of another length raises.
\<close>

definition single_residual :: "dataset option \<Rightarrow> error + image" where
  "single_residual d =
     (case d of
        None \<Rightarrow> Inl (TypeError ''no data for simplex_res_mean'')
      | Some (Image2D im) \<Rightarrow> Inr im
      | Some (Stack3D [im]) \<Rightarrow> Inr im
      | Some (Stack3D _) \<Rightarrow> Inl (ValueError ''Multiple residual images found, expecting only one.''))"

text \<open>
  \<^verbatim>\<open>_objective(arg)\<close>, in the order of the source: separation and angle of the trial
  position; the run of a \<^verbatim>\<open>FakePlanetModule\<close> that writes \<^verbatim>\<open>simplex_fake\<close>; the
  choice and the run of the PSF subtraction; the residual image, which is appended to
  the residual output; the crop around the approximate position; the function of merit;
  the trial record, which is appended to the flux-position output.  The result is the
  merit or the exception, and the state at that moment (when the injected
  \<^verbatim>\<open>FakePlanetModule\<close> raises, the database as it was before its run).
\<close>

definition objective ::
  "simplex_env \<Rightarrow> simplex_module \<Rightarrow> simplex_closure \<Rightarrow> real \<times> real \<times> real \<Rightarrow> simplex_state
     \<Rightarrow> (error + real) \<times> simplex_state" where
  "objective env m cl arg st =
     (case arg of (pos_x, pos_y, mag) \<Rightarrow>
       (let center = cl_center cl;
            sep = sqrt ((pos_y - fst center)\<^sup>2 + (pos_x - snd center)\<^sup>2) * sm_PIXSCALE m;
            ang = atan2 (pos_y - fst center) (pos_x - snd center) * 180 / pi - 90
        in case FakePlanet_run (env_shift env)
                  \<lparr>fp_MEMORY = sm_MEMORY m, fp_PIXSCALE = sm_PIXSCALE m,
                   fp_NEW_PARA = sm_NEW_PARA m, m_position = (sep, ang), m_magnitude = mag,
                   m_psf_scaling = sm_psf_scaling m\<rparr>
                  (sm_image_in_tag m) (sm_psf_in_tag m) ''simplex_fake'' (db st) of
             Inl e \<Rightarrow> (Inl e, st)
           | Inr db1 \<Rightarrow>
               if sm_pca_module m \<noteq> ''PSFSubtractionModule'' \<and> sm_pca_module m \<noteq> ''FastPCAModule''
               then (Inl (ValueError ''The pca_module should be either PSFSubtractionModule or FastPCAModule.''),
                     st\<lparr>db := db1\<rparr>)
               else
                 (case env_psf_subtraction env (sm_pca_module m) db1 of
                    Inl e \<Rightarrow> (Inl e, st\<lparr>db := db1\<rparr>)
                  | Inr db2 \<Rightarrow>
                      (case single_residual (db2 ''simplex_res_mean'') of
                         Inl e \<Rightarrow> (Inl e, st\<lparr>db := db2\<rparr>)
                       | Inr im_res \<Rightarrow>
                           (let st1 = st\<lparr>db := db2, res_out := res_out st @ [im_res]\<rparr>
                            in case env_cutout env im_res
                                      (rotate_about center (cl_position cl) (- sm_extra_rot m))
                                      (2 * cl_radius cl) of
                                 Inl e \<Rightarrow> (Inl e, st1)
                               | Inr im_crop \<Rightarrow>
                                   (case merit_value env m cl im_crop of
                                      Inl e \<Rightarrow> (Inl e, st1)
                                    | Inr merit \<Rightarrow>
                                        (let pos = rotate_about center (pos_x, pos_y)
                                                     (- sm_extra_rot m);
                                             res = [fst pos, snd pos, sep,
                                                    py_fmod (ang - sm_extra_rot m) 360, mag, merit]
                                         in (Inr merit,
                                             st1\<lparr>flux_position := flux_position st1 @ [res]\<rparr>))))))))"

text \<open>
  The calls of \<^verbatim>\<open>_objective\<close> by \<^verbatim>\<open>minimize\<close>, one after the other; an exception
  of \<^verbatim>\<open>_objective\<close> ends the minimization.  \<open>fuel\<close> bounds the number of evaluations, as
  the limits of scipy's Nelder-Mead method do.  The result is the exception, if any, the
  state, and the trials that returned, in the order of their evaluation.
\<close>

fun minimize_loop ::
  "simplex_env \<Rightarrow> simplex_module \<Rightarrow> simplex_closure \<Rightarrow> real \<times> real \<times> real \<Rightarrow> nat \<Rightarrow> simplex_state
     \<Rightarrow> trial list \<Rightarrow> error option \<times> simplex_state \<times> trial list" where
  "minimize_loop env m cl x0 0 st hist = (None, st, hist)"
| "minimize_loop env m cl x0 (Suc fuel) st hist =
     (case env_minimize env x0 (sm_tolerance m) hist of
        None \<Rightarrow> (None, st, hist)
      | Some arg \<Rightarrow>
          (case objective env m cl arg st of
             (Inl e, st') \<Rightarrow> (Some e, st', hist)
           | (Inr merit, st') \<Rightarrow> minimize_loop env m cl x0 fuel st' (hist @ [(arg, merit)])))"

text \<open>
  The values that \<^verbatim>\<open>run\<close> fixes before the minimization, from the shapes of the
  image input and of the PSF input: the radius and sigma are converted to pixels, the
  centre is half the image size (both sizes are taken from the shape of the image
  input), and the approximate position is rotated by \<^verbatim>\<open>extra_rot\<close>.
\<close>

definition make_closure :: "simplex_module \<Rightarrow> nat list \<Rightarrow> nat list \<Rightarrow> simplex_closure" where
  "make_closure m im_shape psf_shape =
     (let psf_size = (if length psf_shape = 2 then (im_shape ! 0, im_shape ! 1)
                      else (im_shape ! 1, im_shape ! 2));
          center = (real (fst psf_size) / 2, real (snd psf_size) / 2)
      in \<lparr>cl_center = center,
          cl_position = rotate_about center (sm_position m) (sm_extra_rot m),
          cl_radius = \<lceil>sm_radius m / sm_PIXSCALE m\<rceil>,
          cl_sigma = sm_sigma m / sm_PIXSCALE m\<rparr>)"

text \<open>
  \<^verbatim>\<open>run\<close>: both outputs are cleared, the image input must be a stack, and the
  minimization starts from the rotated approximate position and the approximate
  magnitude.
\<close>

definition SimplexMinimization_run ::
  "simplex_env \<Rightarrow> simplex_module \<Rightarrow> nat \<Rightarrow> simplex_state \<Rightarrow> error option \<times> simplex_state \<times> trial list" where
  "SimplexMinimization_run env m fuel st =
     (let st0 = st\<lparr>res_out := [], flux_position := []\<rparr>
      in case (db st (sm_image_in_tag m), db st (sm_psf_in_tag m)) of
           (Some image_in, Some psf_in) \<Rightarrow>
             (if length (get_shape image_in) \<noteq> 3 then
                (Some (ValueError ''The image_in_tag should contain a cube of images.''), st0, [])
              else
                (let cl = make_closure m (get_shape image_in) (get_shape psf_in)
                 in minimize_loop env m cl
                      (fst (cl_position cl), snd (cl_position cl), sm_magnitude m) fuel st0 []))
         | _ \<Rightarrow> (Some (TypeError ''no data for an input tag''), st0, []))"

text \<open>
  The trial record of an evaluation at \<open>(pos_x, pos_y, mag)\<close> with the merit value
  \<open>merit\<close>, as the claim lists its six components: the position rotated back by
  \<^verbatim>\<open>extra_rot\<close>, the separation, the angle minus \<^verbatim>\<open>extra_rot\<close> modulo 360, the
  magnitude and the merit.
\<close>

definition trial_record :: "simplex_module \<Rightarrow> simplex_closure \<Rightarrow> trial \<Rightarrow> real list" where
  "trial_record m cl t =
     (case t of ((pos_x, pos_y, mag), merit) \<Rightarrow>
        [fst (rotate_about (cl_center cl) (pos_x, pos_y) (- sm_extra_rot m)),
         snd (rotate_about (cl_center cl) (pos_x, pos_y) (- sm_extra_rot m)),
         sqrt ((pos_y - fst (cl_center cl))\<^sup>2 + (pos_x - snd (cl_center cl))\<^sup>2) * sm_PIXSCALE m,
         py_fmod (atan2 (pos_y - fst (cl_center cl)) (pos_x - snd (cl_center cl)) * 180 / pi - 90
                    - sm_extra_rot m) 360,
         mag, merit])"

text \<open>
  A small configuration on which the theorems about the minimization are evaluated: one
  science frame and one PSF frame of one pixel; an interpolation that leaves the image as
  it is; a PSF subtraction that writes a residual image of one pixel; a crop that returns
  the whole image; a minimization that evaluates its start values and stops.
\<close>

definition example_env :: simplex_env where
  "example_env =
     \<lparr>env_shift = (\<lambda>img d. img),
      env_psf_subtraction = (\<lambda>name d. Inr (d(''simplex_res_mean'' \<mapsto> Image2D [[0]]))),
      env_cutout = (\<lambda>im pos size. Inr im),
      env_hessian_matrix = (\<lambda>im s. (im, im, im)),
      env_minimize = (\<lambda>x0 tol hist. if hist = [] then Some x0 else None)\<rparr>"

definition example_module :: "string \<Rightarrow> simplex_module" where
  "example_module merit_name =
     \<lparr>sm_position = (1 / 2, 1 / 2), sm_magnitude = 0, sm_psf_scaling = - 1,
      sm_merit = merit_name, sm_radius = 1, sm_sigma = 1, sm_tolerance = 1 / 10,
      sm_pca_module = ''PSFSubtractionModule'', sm_extra_rot = 0,
      sm_image_in_tag = ''im_arr'', sm_psf_in_tag = ''im_psf'',
      sm_MEMORY = 1, sm_PIXSCALE = 1, sm_NEW_PARA = [0]\<rparr>"

definition example_closure :: simplex_closure where
  "example_closure =
     \<lparr>cl_center = (1 / 2, 1 / 2), cl_position = (1 / 2, 1 / 2), cl_radius = 1, cl_sigma = 1\<rparr>"

definition example_state :: simplex_state where
  "example_state =
     \<lparr>db = [''im_arr'' \<mapsto> Stack3D [[[1]]], ''im_psf'' \<mapsto> Stack3D [[[1]]]],
      res_out = [], flux_position = []\<rparr>"

section \<open>Properties of the cube flagging\<close>

lemma length_set_slice: "length (set_slice xs i j v) = length xs"
  by (simp add: set_slice_def)

lemma nth_set_slice: "k < length xs \<Longrightarrow> set_slice xs i j v ! k = (if i \<le> k \<and> k < j then v else xs ! k)"
  by (simp add: set_slice_def)

lemma length_flag_loop: "length (flag_loop i n step c bg) = length bg"
  by (induction i n step c bg rule: flag_loop.induct)
     (subst flag_loop.simps, simp add: length_set_slice)

lemma ex_shift_step:
  fixes i step k c :: nat
  shows "(\<exists>j. i + j * step \<le> k \<and> k < i + j * step + c) \<longleftrightarrow>
   (i \<le> k \<and> k < i + c) \<or> (\<exists>j. (i + step) + j * step \<le> k \<and> k < (i + step) + j * step + c)"
  (is "?L \<longleftrightarrow> ?A \<or> ?R")
proof
  assume ?L
  then obtain j where j: "i + j * step \<le> k" "k < i + j * step + c" by blast
  show "?A \<or> ?R"
  proof (cases j)
    case 0
    with j show ?thesis by simp
  next
    case (Suc j')
    with j have "(i + step) + j' * step \<le> k \<and> k < (i + step) + j' * step + c"
      by (simp add: algebra_simps)
    then show ?thesis by blast
  qed
next
  assume "?A \<or> ?R"
  then show ?L
  proof
    assume ?A
    then have "i + 0 * step \<le> k \<and> k < i + 0 * step + c" by simp
    then show ?L by blast
  next
    assume ?R
    then obtain j where "(i + step) + j * step \<le> k" "k < (i + step) + j * step + c" by blast
    then have "i + Suc j * step \<le> k \<and> k < i + Suc j * step + c"
      by (simp add: algebra_simps)
    then show ?L by blast
  qed
qed

lemma flag_loop_nth:
  "0 < step \<Longrightarrow> length bg = n \<Longrightarrow> k < n \<Longrightarrow>
   flag_loop i n step c bg ! k = (bg ! k \<and> \<not> (\<exists>j. i + j * step \<le> k \<and> k < i + j * step + c))"
proof (induction i n step c bg rule: flag_loop.induct)
  case (1 i n step c bg)
  show ?case
  proof (cases "i < n")
    case True
    have "flag_loop i n step c bg ! k = flag_loop (i + step) n step c (set_slice bg i (i + c) False) ! k"
      using True "1.prems" by (subst flag_loop.simps) simp
    also have "\<dots> = (set_slice bg i (i + c) False ! k \<and>
        \<not> (\<exists>j. (i + step) + j * step \<le> k \<and> k < (i + step) + j * step + c))"
      using True "1.prems" by (intro "1.IH") (simp_all add: length_set_slice)
    also have "\<dots> = (bg ! k \<and> \<not> (\<exists>j. i + j * step \<le> k \<and> k < i + j * step + c))"
      using "1.prems" by (subst (2) ex_shift_step) (auto simp: nth_set_slice)
    finally show ?thesis .
  next
    case False
    have "\<not> (\<exists>j. i + j * step \<le> k \<and> k < i + j * step + c)"
      using False "1.prems" by auto
    moreover have "flag_loop i n step c bg = bg"
      using False by (subst flag_loop.simps) simp
    ultimately show ?thesis by simp
  qed
qed

lemma ex_period_iff_mod:
  fixes step c F k :: nat
  assumes "0 < step" "c \<le> step" "F \<le> k"
  shows "(\<exists>j. F + j * step \<le> k \<and> k < F + j * step + c) \<longleftrightarrow> (k - F) mod step < c"
proof
  assume "\<exists>j. F + j * step \<le> k \<and> k < F + j * step + c"
  then obtain j where j: "F + j * step \<le> k" "k < F + j * step + c" by blast
  define r where "r = k - F - j * step"
  have r: "r < c" "k - F = r + j * step" using j by (auto simp: r_def)
  have "(k - F) mod step = r mod step" using r(2) by simp
  also have "\<dots> = r" using r(1) assms(2) by simp
  finally show "(k - F) mod step < c" using r(1) by simp
next
  assume m: "(k - F) mod step < c"
  let ?j = "(k - F) div step"
  have "k - F = ?j * step + (k - F) mod step" by simp
  then have "F + ?j * step \<le> k \<and> k < F + ?j * step + c"
    using m assms(3) by linarith
  then show "\<exists>j. F + j * step \<le> k \<and> k < F + j * step + c" by blast
qed

lemma int_mod_diff: "F \<le> k \<Longrightarrow> (int k - int F) mod (int C * int D) = int ((k - F) mod (C * D))"
  by (simp add: zmod_int of_nat_diff)

text \<open>
  Claim C3, as amended.  With a positive period \<open>C * D\<close>, cube \<open>i\<close> is flagged as a star
  (SOURCE) cube exactly when it is not before the first star cube, \<open>F \<le> i\<close>, and
  \<open>(i - F) mod (C * D) < C\<close>; every other cube, in particular every cube before \<open>F\<close>, is a
  BACKGROUND cube.  (\<open>bg ! i\<close> is the source's \<^verbatim>\<open>bg_frames[i]\<close>.)
\<close>

theorem flag_cubes_source_iff:
  assumes "0 < C * D" "i < n"
  shows "\<exists>bg. flag_cubes D C F n = Inr bg \<and> length bg = n \<and>
           ((\<not> bg ! i) \<longleftrightarrow> (F \<le> i \<and> (int i - int F) mod (int C * int D) < int C))"
proof -
  let ?bg = "flag_loop F n (C * D) C (replicate n True)"
  have cd: "C \<le> C * D" using assms(1) by (cases D) auto
  have nth: "?bg ! i = (\<not> (\<exists>j. F + j * (C * D) \<le> i \<and> i < F + j * (C * D) + C))"
    using assms by (subst flag_loop_nth) simp_all
  have "(\<not> ?bg ! i) \<longleftrightarrow> (F \<le> i \<and> (int i - int F) mod (int C * int D) < int C)"
  proof (cases "F \<le> i")
    case True
    then show ?thesis
      using nth ex_period_iff_mod [OF assms(1) cd True] int_mod_diff [OF True, of C D]
      by simp
  next
    case False
    then have "\<not> (\<exists>j. F + j * (C * D) \<le> i \<and> i < F + j * (C * D) + C)" by auto
    with nth False show ?thesis by simp
  qed
  then show ?thesis using assms by (simp add: flag_cubes_def length_flag_loop)
qed

theorem flag_cubes_source_iff_witness:
  "(0::nat) < 1 * 2 \<and> (2::nat) < 5 \<and> (\<exists>bg. flag_cubes 2 1 0 5 = Inr bg \<and> length bg = 5 \<and>
           ((\<not> bg ! 2) \<longleftrightarrow> ((0::nat) \<le> 2 \<and> (int 2 - int 0) mod (int 1 * int 2) < int 1)))"
  using flag_cubes_source_iff [of 1 2 2 5 0] by simp

text \<open>
  The formula of claim C3 without the bound \<open>F \<le> i\<close> fails: with two dither positions,
  one cube per position and the first star cube at index 2, cube 0 satisfies
  \<open>(0 - 2) mod 2 < 1\<close> (Python's \<^verbatim>\<open>%\<close> and HOL's \<open>mod\<close> agree for a positive
  divisor), but the loop starts at \<open>F\<close> and leaves cube 0 a BACKGROUND cube.
\<close>

theorem flag_cubes_formula_counterexample:
  "flag_cubes 2 1 2 3 = Inr [True, True, False] \<and>
   \<not> ((\<not> [True, True, False] ! 0) \<longleftrightarrow> ((int 0 - int 2) mod (int 1 * int 2) < int 1))"
  by (simp add: flag_cubes_def flag_loop.simps set_slice_def upt_rec)

section \<open>Properties of PCABackgroundPreparationModule.run\<close>

lemma for_each_append:
  "for_each body (xs @ ys) st =
     (case for_each body xs st of Inl e \<Rightarrow> Inl e | Inr st' \<Rightarrow> for_each body ys st')"
  by (induction xs arbitrary: st) (auto split: sum.splits)


lemma nearest_prev_None_iff: "nearest_prev bg i = None \<longleftrightarrow> (\<forall>k<i. \<not> bg ! k)"
  by (auto simp: nearest_prev_def find_None_iff)




lemma set_below: "set (filter (\<lambda>k. k < i) (bg_indices bg)) = {k. k < i \<and> k < length bg \<and> bg ! k}"
  by (auto simp: bg_indices_def)



lemma below_empty:
  assumes "filter (\<lambda>k. k < i) (bg_indices bg) = []" "i \<le> length bg"
  shows "nearest_prev bg i = None"
proof -
  have "set (filter (\<lambda>k. k < i) (bg_indices bg)) = {}" using assms(1) by simp
  then show ?thesis unfolding set_below nearest_prev_None_iff using assms(2) by auto
qed







































section \<open>Properties of the nodding and sky subtraction modules\<close>




















text \<open>
  Claim C7, as amended.  For a mode argument that is none of "next", "previous" and
  "both", the constructor of NoddingBackgroundModule raises a ValueError, and the
  constructor of SkySubtraction raises nothing and sets the mode to "next".
\<close>

theorem init_invalid_mode:
  assumes "mode_arg \<notin> set [''next'', ''previous'', ''both'']"
  shows "NoddingBackgroundModule_init mode_arg =
           Inl (ValueError ''Mode needs to be next, previous or both.'') \<and>
         SkySubtraction_init mode_arg = Inr \<lparr>m_time_stamps = [], m_mode = Next\<rparr>"
proof -
  from assms have "mode_of_string mode_arg = None" by (simp add: mode_of_string_def)
  then show ?thesis by (simp add: NoddingBackgroundModule_init_def SkySubtraction_init_def)
qed

theorem init_invalid_mode_witness:
  "''average'' \<notin> set [''next'', ''previous'', ''both''] \<and>
   NoddingBackgroundModule_init ''average'' =
     Inl (ValueError ''Mode needs to be next, previous or both.'') \<and>
   SkySubtraction_init ''average'' = Inr \<lparr>m_time_stamps = [], m_mode = Next\<rparr>"
proof -
  have h: "''average'' \<notin> set [''next'', ''previous'', ''both'']" by simp
  show ?thesis using h init_invalid_mode [OF h] by simp
qed

text \<open>
  Claim C7 fails for the constructor of SkySubtraction: for the mode argument "average"
  it returns a module, and the module's mode is the default "next".
\<close>

theorem SkySubtraction_init_counterexample:
  "SkySubtraction_init ''average'' = Inr \<lparr>m_time_stamps = [], m_mode = Next\<rparr>"
  by (simp add: SkySubtraction_init_def mode_of_string_def)

section \<open>Properties of SimpleBackgroundSubtractionModule.run\<close>

lemma simple_step_fresh:
  assumes "in_tag \<noteq> out_tag" "st in_tag = Some frames" "st out_tag = Some out"
    "i < length frames" "0 < length frames"
  shows "simple_step shift in_tag out_tag (length frames) i st =
           Inr (st(out_tag \<mapsto> out @ [simple_expected shift frames i]))"
proof -
  have "(int i + shift) mod int (length frames) < int (length frames)"
    using assms(5) by simp
  then have "nat ((int i + shift) mod int (length frames)) < length frames"
    using assms(5) by linarith
  then show ?thesis
    using assms by (simp add: simple_step_def Let_def append_frames_def simple_expected_def)
qed

lemma simple_loop_fresh:
  assumes "in_tag \<noteq> out_tag" "st in_tag = Some frames" "0 < length frames"
  shows "Suc m \<le> length frames \<Longrightarrow>
    for_each (simple_step shift in_tag out_tag (length frames)) [1..<Suc m]
       (st(out_tag \<mapsto> [simple_expected shift frames 0])) =
    Inr (st(out_tag \<mapsto> map (simple_expected shift frames) [0..<Suc m]))"
proof (induction m)
  case 0
  show ?case by simp
next
  case (Suc m)
  let ?st = "st(out_tag \<mapsto> map (simple_expected shift frames) [0..<Suc m])"
  have l: "for_each (simple_step shift in_tag out_tag (length frames)) [1..<Suc m]
       (st(out_tag \<mapsto> [simple_expected shift frames 0])) = Inr ?st"
  proof -
    have "Suc m \<le> length frames" using Suc.prems by simp
    from Suc.IH [OF this] show ?thesis .
  qed
  have s: "simple_step shift in_tag out_tag (length frames) (Suc m) ?st =
      Inr (?st(out_tag \<mapsto> map (simple_expected shift frames) [0..<Suc m] @ [simple_expected shift frames (Suc m)]))"
    using assms Suc.prems by (intro simple_step_fresh) simp_all
  let ?body = "simple_step shift in_tag out_tag (length frames)"
  let ?ini = "st(out_tag \<mapsto> [simple_expected shift frames 0])"
  have u: "[1..<Suc (Suc m)] = [1..<Suc m] @ [Suc m]" by simp
  have "for_each ?body [1..<Suc (Suc m)] ?ini =
        (case for_each ?body [1..<Suc m] ?ini of Inl e \<Rightarrow> Inl e
         | Inr st' \<Rightarrow> for_each ?body [Suc m] st')"
    unfolding u by (rule for_each_append)
  also have "\<dots> = for_each ?body [Suc m] ?st" by (subst l) simp
  also have "\<dots> = Inr (?st(out_tag \<mapsto> map (simple_expected shift frames) [0..<Suc m] @
                 [simple_expected shift frames (Suc m)]))"
    using s by simp
  also have "\<dots> = Inr (st(out_tag \<mapsto> map (simple_expected shift frames) [0..<Suc (Suc m)]))"
    by simp
  finally show ?case .
qed

text \<open>
  With a fresh output tag the run writes, for every frame index \<open>i\<close>, input frame \<open>i\<close> minus
  input frame \<open>(i + shift) mod N\<close>, and leaves the input as it is.
\<close>

lemma simple_run_fresh_output:
  assumes "in_tag \<noteq> out_tag" "st in_tag = Some frames" "frames \<noteq> []"
  shows "SimpleBackgroundSubtraction_run shift in_tag out_tag st =
           Inr (st(out_tag \<mapsto> map (simple_expected shift frames) [0..<length frames]))"
proof -
  obtain m where m: "length frames = Suc m" using assms(3) by (cases frames) auto
  have "0 < length frames" using assms(3) by simp
  then have "for_each (simple_step shift in_tag out_tag (length frames)) [1..<Suc m]
       (st(out_tag \<mapsto> [simple_expected shift frames 0])) =
    Inr (st(out_tag \<mapsto> map (simple_expected shift frames) [0..<Suc m]))"
    using assms(1,2) m by (intro simple_loop_fresh) simp_all
  then show ?thesis using assms m
    by (simp add: SimpleBackgroundSubtraction_run_def Let_def set_all_def simple_expected_def
        del: upt_Suc)
qed

text \<open>
  Claim C5 at an input where the code departs from it.  In the in-place configuration
  (output tag equal to input tag), two frames \<open>[[1]]\<close> and \<open>[[2]]\<close> and a shift of 1: frame
  0 becomes \<open>1 - 2 = -1\<close>; frame 1 is then computed from the frame 0 that was just
  overwritten, \<open>2 - (-1) = 3\<close>, where the claim has input frame 1 minus input frame 0, that
  is 1.
\<close>

theorem simple_run_in_place_divergence:
  "map_sum id (\<lambda>st. st ''im_arr'')
     (SimpleBackgroundSubtraction_run 1 ''im_arr'' ''im_arr'' [''im_arr'' \<mapsto> [[[1]], [[2]]]]) =
     Inr (Some [[[- 1]], [[3]]]) \<and>
   map (simple_expected 1 [[[1]], [[2]]]) [0..<2] = [[[- 1]], [[1]]]"
  by (simp add: SimpleBackgroundSubtraction_run_def simple_step_def write_frame_def
      simple_expected_def img_sub_def Let_def upt_rec)

section \<open>Properties of MeanBackgroundSubtractionModule.run\<close>

text \<open>
  Claim C8.  With a scalar shift \<open>S\<close> and an input stack of \<open>N\<close> frames: if \<open>N < 2 * S\<close> the
  run raises the ValueError about the too small input stack and the database, hence the
  output tag, is as it was before the run; if \<open>N \<ge> 2 * S\<close> that error is not raised.
\<close>

theorem mean_run_frame_count_check:
  assumes "st in_tag = Some frames"
  shows "if length frames < 2 * S
         then MeanBackgroundSubtraction_run S in_tag out_tag st =
                (Some (ValueError ''The input stack is to small for mean background subtraction.''),
                 st)
         else fst (MeanBackgroundSubtraction_run S in_tag out_tag st) \<noteq>
                Some (ValueError ''The input stack is to small for mean background subtraction.'')"
proof (cases "length frames < 2 * S")
  case True
  then show ?thesis using assms
    by (simp add: MeanBackgroundSubtraction_run_def Let_def mult.commute)
next
  case False
  then have nl: "\<not> length frames < S * 2" by (simp add: mult.commute)
  have "fst (MeanBackgroundSubtraction_run S in_tag out_tag st) \<noteq>
          Some (ValueError ''The input stack is to small for mean background subtraction.'')"
  proof (cases "S = 0")
    case True
    then show ?thesis using assms by (simp add: MeanBackgroundSubtraction_run_def Let_def)
  next
    case s: False
    show ?thesis
    proof (cases "in_tag = out_tag")
      case True
      then show ?thesis using assms s nl
        by (simp add: MeanBackgroundSubtraction_run_def Let_def)
    next
      case False
      then show ?thesis using assms s nl
        by (simp add: MeanBackgroundSubtraction_run_def Let_def)
    qed
  qed
  with False show ?thesis by simp
qed

theorem mean_run_frame_count_check_witness:
  "[''im_arr'' \<mapsto> [[[1]], [[2]], [[3]]]] ''im_arr'' = Some [[[1]], [[2]], [[3]]] \<and>
   length [[[1]], [[2]], [[3 :: real]]] < 2 * 2 \<and>
   MeanBackgroundSubtraction_run 2 ''im_arr'' ''bg_cleaned_arr'' [''im_arr'' \<mapsto> [[[1]], [[2]], [[3]]]] =
     (Some (ValueError ''The input stack is to small for mean background subtraction.''),
      [''im_arr'' \<mapsto> [[[1]], [[2]], [[3]]]]) \<and>
   [''im_arr'' \<mapsto> [[[1]], [[2]], [[3]], [[5]]]] ''im_arr'' = Some [[[1]], [[2]], [[3]], [[5]]] \<and>
   \<not> length [[[1]], [[2]], [[3]], [[5 :: real]]] < 2 * 2 \<and>
   fst (MeanBackgroundSubtraction_run 2 ''im_arr'' ''bg_cleaned_arr''
          [''im_arr'' \<mapsto> [[[1]], [[2]], [[3]], [[5]]]]) \<noteq>
     Some (ValueError ''The input stack is to small for mean background subtraction.'')"
proof -
  have h1: "[''im_arr'' \<mapsto> [[[1]], [[2]], [[3 :: real]]]] ''im_arr'' = Some [[[1]], [[2]], [[3]]]"
    by simp
  have h2: "[''im_arr'' \<mapsto> [[[1]], [[2]], [[3]], [[5 :: real]]]] ''im_arr'' =
              Some [[[1]], [[2]], [[3]], [[5]]]"
    by simp
  show ?thesis
    using h1 h2
      mean_run_frame_count_check [of "[''im_arr'' \<mapsto> [[[1]], [[2]], [[3]]]]" "''im_arr''"
        "[[[1]], [[2]], [[3]]]" 2 "''bg_cleaned_arr''"]
      mean_run_frame_count_check [of "[''im_arr'' \<mapsto> [[[1]], [[2]], [[3]], [[5]]]]" "''im_arr''"
        "[[[1]], [[2]], [[3]], [[5]]]" 2 "''bg_cleaned_arr''"]
    by simp
qed

section \<open>Properties of PCABackgroundSubtractionModule\<close>

text \<open>
  Claim C4 at inputs where the code departs from it, in mode "mean" with an exclusion
  radius of one pixel.

  Five frames of 2 by 2 pixels, three of them held in memory at once, the star at \<open>(0, 0)\<close>
  in the first three frames and at \<open>(1, 1)\<close> in the last two: the first chunk is processed
  with the mask that is zero at the pixel \<open>(0, 0)\<close>, and the remaining two frames with a
  mask that is created again from their own star positions and is zero at the pixel
  \<open>(1, 1)\<close>.  The claim has one mask for all five frames, around the mean \<open>(2/5, 2/5)\<close> of
  all star positions, which is zero at every pixel.

  Two frames of 3 by 3 pixels with the star at \<open>(0, 0)\<close> and at \<open>(2, 2)\<close>: the centre of the
  mask is the mean of the first row of the star positions, 0, and the mean of the second
  row, 2, so the mask is zero at row 2, column 0.  The mean star position is \<open>(1, 1)\<close>, and
  the mask of the claim is zero at row 1, column 1.
\<close>

theorem pca_run_mean_mask_divergence:
  "PCABackgroundSubtraction_run create_basis curve_fit
     \<lparr>pca_MEMORY = 3, pca_PIXSCALE = 1,
      pca_STAR_POSITION = [(0, 0), (0, 0), (0, 0), (1, 1), (1, 1)],
      m_mask_radius = 1, m_mask_position = ''mean'',
      star_in = [[[1, 2], [3, 4]], [[1, 2], [3, 4]], [[1, 2], [3, 4]],
                     [[1, 2], [3, 4]], [[1, 2], [3, 4]]],
      background_in = bgf\<rparr> [] =
   (case pca_chunk curve_fit (create_basis bgf)
           [[[1, 2], [3, 4]], [[1, 2], [3, 4]], [[1, 2], [3, 4]]] (Mask2 [[0, 1], [1, 1]]) of
      Inl e \<Rightarrow> Inl e
    | Inr sub0 \<Rightarrow>
        (case pca_chunk curve_fit (create_basis bgf)
                [[[1, 2], [3, 4]], [[1, 2], [3, 4]]] (Mask2 [[1, 1], [1, 0]]) of
           Inl e \<Rightarrow> Inl e
         | Inr sub1 \<Rightarrow> Inr (sub0 @ sub1))) \<and>
   disk_mask (2, 2) 1 (2 / 5) (2 / 5) = Inr [[0, 0], [0, 0]] \<and>
   create_mask ''mean'' (3, 3) 1 [(0, 0), (2, 2)] 2 =
     Inr (Mask2 [[1, 1, 1], [1, 1, 1], [0, 1, 1]]) \<and>
   disk_mask (3, 3) 1 1 1 = Inr [[1, 1, 1], [1, 0, 1], [1, 1, 1]]"
proof -
  have "PCABackgroundSubtraction_run create_basis curve_fit
     \<lparr>pca_MEMORY = 3, pca_PIXSCALE = 1,
      pca_STAR_POSITION = [(0, 0), (0, 0), (0, 0), (1, 1), (1, 1)],
      m_mask_radius = 1, m_mask_position = ''mean'',
      star_in = [[[1, 2], [3, 4]], [[1, 2], [3, 4]], [[1, 2], [3, 4]],
                     [[1, 2], [3, 4]], [[1, 2], [3, 4]]],
      background_in = bgf\<rparr> [] =
   (case pca_chunk curve_fit (create_basis bgf)
           [[[1, 2], [3, 4]], [[1, 2], [3, 4]], [[1, 2], [3, 4]]] (Mask2 [[0, 1], [1, 1]]) of
      Inl e \<Rightarrow> Inl e
    | Inr sub0 \<Rightarrow>
        (case pca_chunk curve_fit (create_basis bgf)
                [[[1, 2], [3, 4]], [[1, 2], [3, 4]]] (Mask2 [[1, 1], [1, 0]]) of
           Inl e \<Rightarrow> Inl e
         | Inr sub1 \<Rightarrow> Inr (sub0 @ sub1)))"
    by (simp add: PCABackgroundSubtraction_run_def pca_loop_step_def create_mask_def
        disk_mask_def rr_grid_def py_int_def slice_def Let_def upt_rec split: sum.splits)
  moreover have "disk_mask (2, 2) 1 (2 / 5) (2 / 5) = Inr [[0, 0], [0, 0]]"
    by (simp add: disk_mask_def rr_grid_def upt_rec power2_eq_square)
  moreover have "create_mask ''mean'' (3, 3) 1 [(0, 0), (2, 2)] 2 =
     Inr (Mask2 [[1, 1, 1], [1, 1, 1], [0, 1, 1]])"
    by (simp add: create_mask_def disk_mask_def rr_grid_def py_int_def upt_rec)
  moreover have "disk_mask (3, 3) 1 1 1 = Inr [[1, 1, 1], [1, 0, 1], [1, 1, 1]]"
    by (simp add: disk_mask_def rr_grid_def upt_rec)
  ultimately show ?thesis by blast
qed

section \<open>Properties of FakePlanetModule.run\<close>

text \<open>
  Claim C2 at an input where the code departs from it: one science frame \<open>[[s]]\<close> under
  the image tag, a PSF stack of one frame \<open>[[p]]\<close> under a different tag, and any
  position, magnitude, scaling, pixel scale, parallactic angle and interpolation.  The
  chunk that receives the shifted PSF is read from the PSF port, so the output frame is
  the PSF frame \<open>[[p]]\<close> plus the scaled shifted PSF; the science frame \<open>[[s]]\<close> does not
  occur in the output.  The claim has the science frame plus the scaled shifted PSF.
  In numbers, for a separation of zero (a shift by zero pixels, which leaves an image as
  it is), magnitude 0 and scaling 1, with \<open>s = 1\<close> and \<open>p = 2\<close>: the output frame is
  \<open>2 + 2 = 4\<close>, the frame of the claim is \<open>1 + 2 = 3\<close>.
\<close>

theorem fake_planet_run_psf_port_divergence:
  "map_sum id (\<lambda>st. st ''im_fake'')
     (FakePlanet_run shift_img
        \<lparr>fp_MEMORY = 1, fp_PIXSCALE = ps, fp_NEW_PARA = [pa], m_position = (sep, ang),
         m_magnitude = mag, m_psf_scaling = sc\<rparr>
        ''im_arr'' ''im_psf'' ''im_fake''
        [''im_arr'' \<mapsto> Stack3D [[[s]]], ''im_psf'' \<mapsto> Stack3D [[[p]]]]) =
   Inr (Some (Stack3D
     [img_add [[p]]
        (img_scale (sc * 10 powr (- mag / 2.5))
           (shift_img [[p]]
              (sep / ps * sin (ang * pi / 180 + pi / 2 - pa * (pi / 180)),
               sep / ps * cos (ang * pi / 180 + pi / 2 - pa * (pi / 180)))))])) \<and>
   fake_expected shift_img
     \<lparr>fp_MEMORY = 1, fp_PIXSCALE = ps, fp_NEW_PARA = [pa], m_position = (sep, ang),
      m_magnitude = mag, m_psf_scaling = sc\<rparr> [[[s]]] [[p]] 0 =
     img_add [[s]]
        (img_scale (sc * 10 powr (- mag / 2.5))
           (shift_img [[p]]
              (sep / ps * sin (ang * pi / 180 + pi / 2 - pa * (pi / 180)),
               sep / ps * cos (ang * pi / 180 + pi / 2 - pa * (pi / 180))))) \<and>
   map_sum id (\<lambda>st. st ''im_fake'')
     (FakePlanet_run (\<lambda>img d. img)
        \<lparr>fp_MEMORY = 1, fp_PIXSCALE = 1, fp_NEW_PARA = [0], m_position = (0, 0),
         m_magnitude = 0, m_psf_scaling = 1\<rparr>
        ''im_arr'' ''im_psf'' ''im_fake''
        [''im_arr'' \<mapsto> Stack3D [[[1]]], ''im_psf'' \<mapsto> Stack3D [[[2]]]]) =
     Inr (Some (Stack3D [[[4]]])) \<and>
   fake_expected (\<lambda>img d. img)
     \<lparr>fp_MEMORY = 1, fp_PIXSCALE = 1, fp_NEW_PARA = [0], m_position = (0, 0),
      m_magnitude = 0, m_psf_scaling = 1\<rparr> [[[1]]] [[2]] 0 = [[3]]"
  by (simp add: FakePlanet_run_def fake_planet_chunk_def get_shape_def image_shape_def
      im_stacks_def slice_def fake_expected_def img_add_def img_scale_def Let_def upt_rec)

section \<open>Properties of SimplexMinimizationModule\<close>

lemma objective_returns:
  assumes "objective env m cl arg st = (Inr merit, st1)"
  shows "(\<exists>im_res. res_out st1 = res_out st @ [im_res]) \<and>
         flux_position st1 = flux_position st @ [trial_record m cl (arg, merit)]"
  using assms
  by (auto simp: objective_def Let_def trial_record_def
      split: prod.splits sum.splits if_splits)

lemma objective_raises:
  assumes "objective env m cl arg st = (Inl e, st1)"
  shows "flux_position st1 = flux_position st \<and>
         (res_out st1 = res_out st \<or> (\<exists>im_res. res_out st1 = res_out st @ [im_res]))"
  using assms
  by (auto simp: objective_def Let_def split: prod.splits sum.splits if_splits)

lemma minimize_loop_records:
  "minimize_loop env m cl x0 fuel st hist = (r, st', hist') \<Longrightarrow>
   \<exists>new ims. hist' = hist @ new \<and>
     flux_position st' = flux_position st @ map (trial_record m cl) new \<and>
     res_out st' = res_out st @ ims \<and>
     (if r = None then length ims = length new
      else length ims = length new \<or> length ims = Suc (length new))"
proof (induction fuel arbitrary: st hist)
  case 0
  then show ?case by simp
next
  case (Suc fuel)
  show ?case
  proof (cases "env_minimize env x0 (sm_tolerance m) hist")
    case None
    with Suc.prems show ?thesis by simp
  next
    case (Some arg)
    obtain res st1 where o: "objective env m cl arg st = (res, st1)"
      by (cases "objective env m cl arg st") auto
    show ?thesis
    proof (cases res)
      case (Inl e)
      with Suc.prems Some o have r: "r = Some e" "st' = st1" "hist' = hist" by simp_all
      from objective_raises [OF o [unfolded Inl]] have
        f: "flux_position st1 = flux_position st"
        and "res_out st1 = res_out st \<or> (\<exists>im_res. res_out st1 = res_out st @ [im_res])"
        by simp_all
      then obtain ims where "res_out st1 = res_out st @ ims" "length ims = 0 \<or> length ims = Suc 0"
        by (metis append_Nil2 length_Cons list.size(3))
      with r f have "hist' = hist @ [] \<and>
          flux_position st' = flux_position st @ map (trial_record m cl) [] \<and>
          res_out st' = res_out st @ ims \<and>
          (if r = None then length ims = length ([] :: trial list)
           else length ims = length ([] :: trial list) \<or> length ims = Suc (length ([] :: trial list)))"
        by simp
      then show ?thesis by blast
    next
      case (Inr merit)
      with Suc.prems Some o have
        l: "minimize_loop env m cl x0 fuel st1 (hist @ [(arg, merit)]) = (r, st', hist')"
        by simp
      from Suc.IH [OF l] obtain new ims where n:
        "hist' = (hist @ [(arg, merit)]) @ new"
        "flux_position st' = flux_position st1 @ map (trial_record m cl) new"
        "res_out st' = res_out st1 @ ims"
        "if r = None then length ims = length new
         else length ims = length new \<or> length ims = Suc (length new)"
        by blast
      from objective_returns [OF o [unfolded Inr]] obtain im_res where s:
        "res_out st1 = res_out st @ [im_res]"
        "flux_position st1 = flux_position st @ [trial_record m cl (arg, merit)]"
        by blast
      have "hist' = hist @ ((arg, merit) # new)" using n(1) by simp
      moreover have "flux_position st' =
          flux_position st @ map (trial_record m cl) ((arg, merit) # new)"
        using n(2) s(2) by simp
      moreover have "res_out st' = res_out st @ (im_res # ims)" using n(3) s(1) by simp
      moreover have "if r = None then length (im_res # ims) = length ((arg, merit) # new)
         else length (im_res # ims) = length ((arg, merit) # new) \<or>
              length (im_res # ims) = Suc (length ((arg, merit) # new))"
        using n(4) by (simp split: if_splits)
      ultimately show ?thesis by blast
    qed
  qed
qed

text \<open>
  Claim C9, as amended.  Every evaluation of the objective function that returns a merit
  value appends exactly one residual image to the residual output and exactly one trial
  record of six components (the position rotated back, the separation, the angle minus
  \<^verbatim>\<open>extra_rot\<close> modulo 360, the magnitude, the merit value) to the flux-position
  output.  After a run, the flux-position output holds the records of the evaluations
  that returned, in the order of their evaluation, so that its last row is the record of
  the last evaluation; when the run ends without an exception, the residual output holds
  as many images as there were evaluations.
\<close>

theorem simplex_trial_records:
  "(objective env m cl arg st = (Inr merit, st1) \<longrightarrow>
      (\<exists>im_res. res_out st1 = res_out st @ [im_res]) \<and>
      flux_position st1 = flux_position st @ [trial_record m cl (arg, merit)]) \<and>
   (SimplexMinimization_run env m fuel st = (r, st', hist) \<and>
    db st (sm_image_in_tag m) = Some image_in \<and> db st (sm_psf_in_tag m) = Some psf_in \<longrightarrow>
      flux_position st' =
        map (trial_record m (make_closure m (get_shape image_in) (get_shape psf_in))) hist \<and>
      (r = None \<longrightarrow> length (res_out st') = length hist) \<and>
      (hist \<noteq> [] \<longrightarrow>
         last (flux_position st') =
           trial_record m (make_closure m (get_shape image_in) (get_shape psf_in)) (last hist)))"
proof (intro conjI impI)
  assume "objective env m cl arg st = (Inr merit, st1)"
  from objective_returns [OF this]
  show "\<exists>im_res. res_out st1 = res_out st @ [im_res]"
    and "flux_position st1 = flux_position st @ [trial_record m cl (arg, merit)]"
    by simp_all
next
  let ?cl = "make_closure m (get_shape image_in) (get_shape psf_in)"
  let ?st0 = "st\<lparr>res_out := [], flux_position := []\<rparr>"
  assume a: "SimplexMinimization_run env m fuel st = (r, st', hist) \<and>
    db st (sm_image_in_tag m) = Some image_in \<and> db st (sm_psf_in_tag m) = Some psf_in"
  have rec: "flux_position st' = map (trial_record m ?cl) hist \<and>
             (r = None \<longrightarrow> length (res_out st') = length hist)"
  proof (cases "length (get_shape image_in) \<noteq> 3")
    case True
    with a show ?thesis by (auto simp: SimplexMinimization_run_def Let_def)
  next
    case False
    from a have a1: "SimplexMinimization_run env m fuel st = (r, st', hist)"
      and a2: "db st (sm_image_in_tag m) = Some image_in"
      and a3: "db st (sm_psf_in_tag m) = Some psf_in" by simp_all
    from a1 False have "minimize_loop env m ?cl
        (fst (cl_position ?cl), snd (cl_position ?cl), sm_magnitude m) fuel ?st0 [] = (r, st', hist)"
      by (simp add: SimplexMinimization_run_def Let_def a2 a3)
    from minimize_loop_records [OF this] show ?thesis by (auto split: if_splits)
  qed
  then show "flux_position st' = map (trial_record m ?cl) hist"
    and "r = None \<Longrightarrow> length (res_out st') = length hist"
    by simp_all
  assume "hist \<noteq> []"
  with rec show "last (flux_position st') = trial_record m ?cl (last hist)"
    by (simp add: last_map)
qed

theorem simplex_trial_records_witness:
  "fst (objective example_env (example_module ''sum'') example_closure (1 / 2, 1 / 2, 0)
          example_state) = Inr 0 \<and>
   res_out (snd (objective example_env (example_module ''sum'') example_closure (1 / 2, 1 / 2, 0)
          example_state)) = res_out example_state @ [[[0]]] \<and>
   flux_position (snd (objective example_env (example_module ''sum'') example_closure
          (1 / 2, 1 / 2, 0) example_state)) =
     flux_position example_state @
       [trial_record (example_module ''sum'') example_closure ((1 / 2, 1 / 2, 0), 0)] \<and>
   trial_record (example_module ''sum'') example_closure ((1 / 2, 1 / 2, 0), 0) =
     [1 / 2, 1 / 2, 0, 270, 0, 0] \<and>
   db example_state (sm_image_in_tag (example_module ''sum'')) = Some (Stack3D [[[1]]]) \<and>
   db example_state (sm_psf_in_tag (example_module ''sum'')) = Some (Stack3D [[[1]]]) \<and>
   fst (SimplexMinimization_run example_env (example_module ''sum'') (Suc (Suc 0)) example_state) =
     None \<and>
   snd (snd (SimplexMinimization_run example_env (example_module ''sum'') (Suc (Suc 0))
          example_state)) = [((1 / 2, 1 / 2, 0), 0)] \<and>
   flux_position (fst (snd (SimplexMinimization_run example_env (example_module ''sum'')
          (Suc (Suc 0)) example_state))) = [[1 / 2, 1 / 2, 0, 270, 0, 0]] \<and>
   length (res_out (fst (snd (SimplexMinimization_run example_env (example_module ''sum'')
          (Suc (Suc 0)) example_state)))) = 1"
proof -
  let ?o = "objective example_env (example_module ''sum'') example_closure (1 / 2, 1 / 2, 0)
              example_state"
  let ?r = "SimplexMinimization_run example_env (example_module ''sum'') (Suc (Suc 0))
              example_state"
  have o: "fst ?o = Inr 0"
    by (simp add: objective_def example_env_def example_module_def example_closure_def
        example_state_def FakePlanet_run_def fake_planet_chunk_def get_shape_def
        image_shape_def im_stacks_def slice_def single_residual_def merit_value_def
        aperture_abs_sum_def aperture_grid_def rotate_about_def atan2_def py_fmod_def
        img_add_def img_scale_def Let_def upt_rec)
  then have ho: "?o = (Inr 0, snd ?o)" by (metis prod.collapse)
  have r: "fst ?r = None" "snd (snd ?r) = [((1 / 2, 1 / 2, 0), 0)]"
    by (simp_all add: SimplexMinimization_run_def make_closure_def objective_def
        example_env_def example_module_def example_closure_def
        example_state_def FakePlanet_run_def fake_planet_chunk_def get_shape_def
        image_shape_def im_stacks_def slice_def single_residual_def merit_value_def
        aperture_abs_sum_def aperture_grid_def rotate_about_def atan2_def py_fmod_def
        img_add_def img_scale_def Let_def upt_rec)
  then have hr: "?r = (None, fst (snd ?r), [((1 / 2, 1 / 2, 0), 0)])"
    by (metis prod.collapse)
  have d: "db example_state (sm_image_in_tag (example_module ''sum'')) = Some (Stack3D [[[1]]])"
    "db example_state (sm_psf_in_tag (example_module ''sum'')) = Some (Stack3D [[[1]]])"
    by (simp_all add: example_state_def example_module_def)
  have c: "make_closure (example_module ''sum'') (get_shape (Stack3D [[[1]]]))
             (get_shape (Stack3D [[[1]]])) = example_closure"
    by (simp add: make_closure_def example_module_def example_closure_def get_shape_def
        image_shape_def rotate_about_def Let_def)
  have t: "trial_record (example_module ''sum'') example_closure ((1 / 2, 1 / 2, 0), 0) =
     [1 / 2, 1 / 2, 0, 270, 0, 0]"
    by (simp add: trial_record_def example_module_def example_closure_def rotate_about_def
        atan2_def py_fmod_def Let_def)
  have e: "(\<exists>im_res. res_out (snd ?o) = res_out example_state @ [im_res]) \<and>
      flux_position (snd ?o) = flux_position example_state @
        [trial_record (example_module ''sum'') example_closure ((1 / 2, 1 / 2, 0), 0)]"
    using ho simplex_trial_records [where env = example_env and m = "example_module ''sum''"
        and cl = example_closure and arg = "(1 / 2, 1 / 2, 0)" and st = example_state
        and merit = 0 and ?st1.0 = "snd ?o"]
    by blast
  have ro: "res_out (snd ?o) = res_out example_state @ [[[0]]]"
    by (simp add: objective_def example_env_def example_module_def example_closure_def
        example_state_def FakePlanet_run_def fake_planet_chunk_def get_shape_def
        image_shape_def im_stacks_def slice_def single_residual_def merit_value_def
        aperture_abs_sum_def aperture_grid_def rotate_about_def atan2_def py_fmod_def
        img_add_def img_scale_def Let_def upt_rec)
  have f: "flux_position (fst (snd ?r)) =
        map (trial_record (example_module ''sum'') example_closure) [((1 / 2, 1 / 2, 0), 0)] \<and>
      length (res_out (fst (snd ?r))) = length [((1 / 2, 1 / 2, 0), 0 :: real)]"
    using hr d c simplex_trial_records [where env = example_env
        and m = "example_module ''sum''" and fuel = "Suc (Suc 0)" and st = example_state
        and r = None and st' = "fst (snd ?r)" and hist = "[((1 / 2, 1 / 2, 0), 0)]"
        and image_in = "Stack3D [[[1]]]" and psf_in = "Stack3D [[[1]]]"]
    by simp
  show ?thesis using o r d e ro f t by simp
qed

text \<open>
  Claim C9 fails for an evaluation that raises: with a function of merit that is neither
  "hessian" nor "sum", the evaluation appends the residual image and then raises the
  ValueError, before a trial record is appended.  The residual output has one image, the
  flux-position output has no row.
\<close>

theorem objective_unsupported_merit_counterexample:
  "fst (objective example_env (example_module ''chi2'') example_closure (1 / 2, 1 / 2, 0)
          example_state) =
     Inl (ValueError ''Function of merit should be set to hessian or sum.'') \<and>
   res_out example_state = [] \<and> flux_position example_state = [] \<and>
   res_out (snd (objective example_env (example_module ''chi2'') example_closure
          (1 / 2, 1 / 2, 0) example_state)) = [[[0]]] \<and>
   flux_position (snd (objective example_env (example_module ''chi2'') example_closure
          (1 / 2, 1 / 2, 0) example_state)) = []"
  by (simp add: objective_def example_env_def example_module_def example_closure_def
      example_state_def FakePlanet_run_def fake_planet_chunk_def get_shape_def
      image_shape_def im_stacks_def slice_def single_residual_def merit_value_def
      rotate_about_def atan2_def img_add_def img_scale_def Let_def upt_rec)

end
